theory Spec2Isabelle
  imports Main "HOL-Library.AList" "HOL-Library.Char_ord" "HOL-Library.List_Lexorder"
    "HOL-Library.Multiset"
begin

section \<open>Values and exceptions\<close>

text \<open>
  A payload is a Python \<open>dict\<close> holding decoded JSON. JSON values are modelled by the
  datatype below; a \<open>dict\<close> is an association list with the insertion order of its keys.
  Strings are HOL strings, one \<open>char\<close> per code point (code points below 256), ordered
  as Python orders \<open>str\<close>: lexicographically by code point. Floating point numbers are not
  part of the model.
\<close>

datatype json =
    JNull
  | JBool bool
  | JNum int
  | JStr string
  | JArr "json list"
  | JObj "(string \<times> json) list"

type_synonym dict = "(string \<times> json) list"

text \<open>
  Exceptions by class. \<open>ValueError\<close>, \<open>TypeError\<close> and \<open>RuntimeError\<close> carry the message
  of the \<open>raise\<close> statement; errors raised by the interpreter itself (a missing key, an
  operation on a value of the wrong type) carry the empty message, their text is not
  modelled. \<open>ClientError\<close> carries \<open>e.response["Error"]["Code"]\<close>. Only subclasses of
  \<open>Exception\<close> are modelled.
\<close>

datatype exn =
    KeyError
  | IndexError
  | TypeError string
  | AttributeError
  | ValueError string
  | RuntimeError string
  | ClientError string
  | TerminalError
  | OtherError string

text \<open>Sequencing of computations that may raise.\<close>

definition bind :: "exn + 'a \<Rightarrow> ('a \<Rightarrow> exn + 'b) \<Rightarrow> exn + 'b" where
  "bind m f = (case m of Inl e \<Rightarrow> Inl e | Inr x \<Rightarrow> f x)"

fun mapM :: "('a \<Rightarrow> exn + 'b) \<Rightarrow> 'a list \<Rightarrow> exn + 'b list" where
  "mapM f [] = Inr []"
| "mapM f (x # xs) =
     (case f x of
        Inl e \<Rightarrow> Inl e
      | Inr y \<Rightarrow> (case mapM f xs of Inl e \<Rightarrow> Inl e | Inr ys \<Rightarrow> Inr (y # ys)))"

subsection \<open>The Python operations the source applies to payload values\<close>

text \<open>\<open>needle in s\<close> on two strings: substring test.\<close>

fun str_contains :: "string \<Rightarrow> string \<Rightarrow> bool" where
  "str_contains needle [] = (needle = [])"
| "str_contains needle (c # cs) =
     (take (length needle) (c # cs) = needle \<or> str_contains needle cs)"

text \<open>
  \<open>key in v\<close> for a string \<open>key\<close>: key membership on a dict, element membership on a
  list, substring on a string, \<open>TypeError\<close> on anything else.
\<close>

definition py_in :: "string \<Rightarrow> json \<Rightarrow> exn + bool" where
  "py_in key v =
     (case v of
        JObj kvs \<Rightarrow> Inr (key \<in> fst ` set kvs)
      | JArr xs \<Rightarrow> Inr (JStr key \<in> set xs)
      | JStr s \<Rightarrow> Inr (str_contains key s)
      | _ \<Rightarrow> Inl (TypeError []))"

text \<open>
  \<open>v[key]\<close> for a string \<open>key\<close>: lookup on a dict (\<open>KeyError\<close> when absent),
  \<open>TypeError\<close> on anything else.
\<close>

definition py_getitem :: "json \<Rightarrow> string \<Rightarrow> exn + json" where
  "py_getitem v key =
     (case v of
        JObj kvs \<Rightarrow> (case map_of kvs key of None \<Rightarrow> Inl KeyError | Some x \<Rightarrow> Inr x)
      | _ \<Rightarrow> Inl (TypeError []))"

text \<open>Truth value of a JSON value, as \<open>not v\<close> and \<open>or\<close> read it.\<close>

definition py_truthy :: "json \<Rightarrow> bool" where
  "py_truthy v =
     (case v of
        JNull \<Rightarrow> False
      | JBool b \<Rightarrow> b
      | JNum n \<Rightarrow> n \<noteq> 0
      | JStr s \<Rightarrow> s \<noteq> []
      | JArr xs \<Rightarrow> xs \<noteq> []
      | JObj kvs \<Rightarrow> kvs \<noteq> [])"

text \<open>
  \<open>for i in v\<close>: the elements of a list, the keys of a dict, the characters of a
  string; \<open>TypeError\<close> on anything else.
\<close>

definition py_iter :: "json \<Rightarrow> exn + json list" where
  "py_iter v =
     (case v of
        JArr xs \<Rightarrow> Inr xs
      | JObj kvs \<Rightarrow> Inr (map (\<lambda>kv. JStr (fst kv)) kvs)
      | JStr s \<Rightarrow> Inr (map (\<lambda>c. JStr [c]) s)
      | _ \<Rightarrow> Inl (TypeError []))"

text \<open>\<open>len(v)\<close>.\<close>

definition py_len :: "json \<Rightarrow> exn + nat" where
  "py_len v =
     (case v of
        JArr xs \<Rightarrow> Inr (length xs)
      | JObj kvs \<Rightarrow> Inr (length kvs)
      | JStr s \<Rightarrow> Inr (length s)
      | _ \<Rightarrow> Inl (TypeError []))"

text \<open>
  A value inside an f-string: a string is inserted as it is, any other value through
  Python's \<open>str()\<close>, which is the parameter \<open>fmt\<close>.
\<close>

definition format_value :: "(json \<Rightarrow> string) \<Rightarrow> json \<Rightarrow> string" where
  "format_value fmt v = (case v of JStr s \<Rightarrow> s | _ \<Rightarrow> fmt v)"

text \<open>\<open>sep.join(xs)\<close> on strings.\<close>

fun join :: "string \<Rightarrow> string list \<Rightarrow> string" where
  "join sep [] = []"
| "join sep [x] = x"
| "join sep (x # y # xs) = x @ sep @ join sep (y # xs)"

text \<open>The strings of a list of values, or \<open>None\<close> when one of them is not a string.\<close>

fun strings_of :: "json list \<Rightarrow> string list option" where
  "strings_of [] = Some []"
| "strings_of (JStr s # vs) = map_option ((#) s) (strings_of vs)"
| "strings_of (_ # vs) = None"

section \<open>ProcessPayload\<close>

text \<open>
  A \<open>ProcessPayload\<close> object: the dict itself (\<open>items\<close>) and the attributes that
  \<open>__init__\<close> sets. \<open>state_item\<close> is \<open>JNull\<close> for \<open>None\<close>.
\<close>

record ProcessPayload =
  items :: dict
  process :: json
  features :: json
  tasks :: json
  state_item :: json

definition MAX_PAYLOAD_LENGTH :: nat where
  "MAX_PAYLOAD_LENGTH = 250000"

subsection \<open>set_id\<close>

text \<open>
  The \<open>collection\<close> of one feature inside the set comprehension of \<open>set_id\<close>:
  \<open>None\<close> when the feature has none. The set is then sorted and joined, which raises
  \<open>TypeError\<close> for any value that is not a string (unhashable, not comparable, or
  refused by \<open>join\<close>); all these are \<open>TypeError\<close>, raised before the ids are read.
\<close>

definition feature_collection :: "json \<Rightarrow> exn + string option" where
  "feature_collection i =
     bind (py_in ''collection'' i) (\<lambda>has.
       if has then
         bind (py_getitem i ''collection'') (\<lambda>c.
           case c of JStr s \<Rightarrow> Inr (Some s) | _ \<Rightarrow> Inl (TypeError []))
       else Inr None)"

definition collections_of :: "json list \<Rightarrow> exn + string" where
  "collections_of feats =
     bind (mapM feature_collection feats) (\<lambda>cs.
       let cols = sort (remdups (List.map_filter id cs))
       in Inr (if length cols \<noteq> 0 then join ''/'' cols else ''none''))"

definition items_str_of :: "json list \<Rightarrow> exn + string" where
  "items_str_of feats =
     bind (mapM (\<lambda>i. py_getitem i ''id'') feats) (\<lambda>ids.
       case strings_of ids of
         None \<Rightarrow> Inl (TypeError [])
       | Some ss \<Rightarrow> Inr (join ''/'' (sort ss)))"

definition set_id :: "(json \<Rightarrow> string) \<Rightarrow> ProcessPayload \<Rightarrow> exn + ProcessPayload" where
  "set_id fmt self =
     (if ''id'' \<in> fst ` set (items self) then Inr self
      else if \<not> py_truthy (features self) then
        Inl (ValueError
          ''ProcessPayload has no `id` specified and one cannot be constructed without `features`.'')
      else
        bind (py_in ''collections'' (process self)) (\<lambda>has.
        bind (if has then
                bind (py_getitem (process self) ''collections'') (\<lambda>c. Inr (format_value fmt c))
              else
                bind (py_iter (features self)) collections_of) (\<lambda>collections_str.
        bind (py_iter (features self)) (\<lambda>feats.
        bind (items_str_of feats) (\<lambda>items_str.
        bind (py_getitem (process self) ''workflow'') (\<lambda>workflow.
          Inr (self\<lparr>items := AList.update ''id''
                 (JStr (collections_str @ ''/workflow-'' @ format_value fmt workflow @ ''/'' @ items_str))
                 (items self)\<rparr>)))))))"

text \<open>
  The id that \<open>set_id\<close> derives, as a function of the active step and of the features:
  what \<open>set_id\<close> computes after its two early exits (lemma \<open>set_id_derive\<close> below).
\<close>

definition derive_id :: "(json \<Rightarrow> string) \<Rightarrow> json \<Rightarrow> json \<Rightarrow> exn + string" where
  "derive_id fmt proc feats =
        bind (py_in ''collections'' proc) (\<lambda>has.
        bind (if has then
                bind (py_getitem proc ''collections'') (\<lambda>c. Inr (format_value fmt c))
              else
                bind (py_iter feats) collections_of) (\<lambda>collections_str.
        bind (py_iter feats) (\<lambda>fs.
        bind (items_str_of fs) (\<lambda>items_str.
        bind (py_getitem proc ''workflow'') (\<lambda>workflow.
          Inr (collections_str @ ''/workflow-'' @ format_value fmt workflow @ ''/'' @ items_str))))))"

subsection \<open>__init__\<close>




subsection \<open>next_payloads\<close>

text \<open>
  A generator is modelled by what a consumer that exhausts it sees: the values yielded,
  and the exception that ended it, if any.
\<close>

fun run_gen :: "(exn + 'a) list \<Rightarrow> 'a list \<times> exn option" where
  "run_gen [] = ([], None)"
| "run_gen (Inl e # rs) = ([], Some e)"
| "run_gen (Inr x # rs) = (case run_gen rs of (ys, e) \<Rightarrow> (x # ys, e))"

text \<open>
  The second entry of \<open>self["process"]\<close> as the list of successor steps: a dict is one
  step, anything else is iterated.
\<close>

definition next_processes :: "json \<Rightarrow> exn + json list" where
  "next_processes procs =
     bind (case procs of
             JArr ps \<Rightarrow> if 1 < length ps then Inr (ps ! 1) else Inl IndexError
           | JStr s \<Rightarrow> if 1 < length s then Inr (JStr [s ! 1]) else Inl IndexError
           | JObj kvs \<Rightarrow> Inl KeyError
           | _ \<Rightarrow> Inl (TypeError [])) (\<lambda>second.
       case second of JObj kvs \<Rightarrow> Inr [second] | _ \<Rightarrow> py_iter second)"

text \<open>
  The body of the loop for one successor step: the copy loses its \<open>id\<close>, the first
  entry of its \<open>process\<close> list is popped and the next one replaced by the step (both
  fail on a list that is too short). \<open>jfind cf new\<close> stands for
  \<open>jsonpath.parse(f'$.features[?({cf})]').find(new)\<close> with the values of the matches
  taken, a library call outside this repository.
\<close>

definition next_payload ::
  "(json \<Rightarrow> dict \<Rightarrow> exn + json list) \<Rightarrow> ProcessPayload \<Rightarrow> json \<Rightarrow> exn + ProcessPayload" where
  "next_payload jfind self proc =
     (if ''id'' \<notin> fst ` set (items self) then Inl KeyError
      else
        (let items1 = AList.delete ''id'' (items self) in
         bind (py_getitem (JObj items1) ''process'') (\<lambda>procs.
         bind (case procs of
                 JArr ps \<Rightarrow>
                   if 1 < length ps then Inr (JArr (proc # drop 2 ps)) else Inl IndexError
               | _ \<Rightarrow> Inl AttributeError) (\<lambda>procs'.
         let items2 = AList.update ''process'' procs' items1 in
         bind (py_in ''chain_filter'' proc) (\<lambda>has.
           if has then
             bind (py_getitem proc ''chain_filter'') (\<lambda>cf.
             bind (jfind cf items2) (\<lambda>matches.
               Inr (self\<lparr>items := AList.update ''features'' (JArr matches) items2\<rparr>)))
           else Inr (self\<lparr>items := items2\<rparr>))))))"

definition next_payloads ::
  "(json \<Rightarrow> dict \<Rightarrow> exn + json list) \<Rightarrow> ProcessPayload \<Rightarrow> ProcessPayload list \<times> exn option" where
  "next_payloads jfind self =
     (case py_getitem (JObj (items self)) ''process'' of
        Inl e \<Rightarrow> ([], Some e)
      | Inr procs \<Rightarrow>
          (case py_len procs of
             Inl e \<Rightarrow> ([], Some e)
           | Inr n \<Rightarrow>
               if n \<le> 1 then ([], None)
               else (case next_processes procs of
                       Inl e \<Rightarrow> ([], Some e)
                     | Inr steps \<Rightarrow> run_gen (map (next_payload jfind self) steps))))"

section \<open>The services a launch talks to\<close>

text \<open>
  The members of \<open>StateEnum\<close> (\<open>cirrus.lib.enums\<close>); the functions below only name
  \<open>PROCESSING\<close>, \<open>FAILED\<close> and \<open>ABORTED\<close>.
\<close>

datatype StateEnum = PROCESSING | CLAIMED | COMPLETED | FAILED | ABORTED | INVALID

text \<open>
  Effects are recorded in a log, one event per call that returned: the uploads to S3,
  the started executions, and the calls on the \<open>WorkflowEventManager\<close>.
\<close>

datatype event =
    S3Upload dict string
  | ClaimProcessing json string string
  | StartExecution string string string
  | StartedProcessing json string string
  | Skipping json "StateEnum option" string
  | Failed json string string
  | Duplicated json string

text \<open>
  The environment and the calls that leave the repository. Each call that can raise is
  a function of the log so far and of its arguments, so that two calls may answer
  differently: \<open>None\<close> or \<open>Inr\<close> when it returns, the exception otherwise.
  \<open>claim_processing\<close> returns the execution name. \<open>json_dumps\<close> is \<open>json.dumps\<close>
  (its output is ASCII, so its length is the encoded length), \<open>py_str\<close> is \<open>str()\<close> on a
  value that is not a string, \<open>exc_str\<close> is \<open>str(e)\<close>, \<open>uuid1\<close> is \<open>str(uuid.uuid1())\<close>
  and \<open>payload_id_to_url\<close> is \<open>StateDB.payload_id_to_url\<close>. The event manager's
  \<open>skipping\<close>, \<open>failed\<close> and \<open>duplicated\<close> are taken to return. Logging is not modelled.
\<close>

record services =
  CIRRUS_PAYLOAD_BUCKET :: "string option"
  CIRRUS_BASE_WORKFLOW_ARN :: "string option"
  upload_json :: "event list \<Rightarrow> dict \<Rightarrow> string \<Rightarrow> exn option"
  claim_processing :: "event list \<Rightarrow> json \<Rightarrow> string \<Rightarrow> string \<Rightarrow> exn + string"
  start_execution :: "event list \<Rightarrow> string \<Rightarrow> string \<Rightarrow> string \<Rightarrow> exn option"
  started_processing :: "event list \<Rightarrow> json \<Rightarrow> string \<Rightarrow> string \<Rightarrow> exn option"
  uuid1 :: "event list \<Rightarrow> string"
  json_dumps :: "dict \<Rightarrow> string"
  py_str :: "json \<Rightarrow> string"
  exc_str :: "exn \<Rightarrow> string"
  payload_id_to_url :: "json \<Rightarrow> string"

subsection \<open>upload_to_s3 and get_payload\<close>

text \<open>Decimal digits of a number, for the f-strings that print one.\<close>

fun show_nat :: "nat \<Rightarrow> string" where
  "show_nat n =
     (if n < 10 then [''0123456789'' ! n]
      else show_nat (n div 10) @ [''0123456789'' ! (n mod 10)])"

declare show_nat.simps [simp del]

definition upload_to_s3 ::
  "services \<Rightarrow> event list \<Rightarrow> dict \<Rightarrow> string option \<Rightarrow> (exn + json) \<times> event list" where
  "upload_to_s3 sv log payload bucket =
     (if ''url'' \<in> fst ` set payload then (py_getitem (JObj payload) ''url'', log)
      else
        (case (case bucket of None \<Rightarrow> CIRRUS_PAYLOAD_BUCKET sv | Some b \<Rightarrow> Some b) of
           None \<Rightarrow> (Inl KeyError, log)
         | Some b \<Rightarrow>
             (let url = ''s3://'' @ b @ ''/payloads/'' @ uuid1 sv log @ ''.json'' in
              case upload_json sv log payload url of
                Some e \<Rightarrow> (Inl e, log)
              | None \<Rightarrow> (Inr (JStr url), log @ [S3Upload payload url]))))"

definition get_payload ::
  "services \<Rightarrow> event list \<Rightarrow> ProcessPayload \<Rightarrow> (exn + dict) \<times> event list" where
  "get_payload sv log self =
     (let payload_length = length (json_dumps sv (items self)) in
      if payload_length \<le> MAX_PAYLOAD_LENGTH then (Inr (items self), log)
      else
        (case CIRRUS_PAYLOAD_BUCKET sv of
           None \<Rightarrow>
             (Inl (RuntimeError
                (''No payload bucket defined and payload too large: length ''
                 @ show_nat payload_length @ '' (max '' @ show_nat MAX_PAYLOAD_LENGTH @ ''). ''
                 @ ''To enable uploads oversized payloads define `CIRRUS_PAYLOAD_BUCKET`.'')), log)
         | Some payload_bucket \<Rightarrow>
             if payload_bucket = [] then
               (Inl (RuntimeError
                  (''No payload bucket defined and payload too large: length ''
                   @ show_nat payload_length @ '' (max '' @ show_nat MAX_PAYLOAD_LENGTH @ ''). ''
                   @ ''To enable uploads oversized payloads define `CIRRUS_PAYLOAD_BUCKET`.'')), log)
             else
               (case upload_to_s3 sv log (items self) (Some payload_bucket) of
                  (Inl e, log') \<Rightarrow> (Inl e, log')
                | (Inr url, log') \<Rightarrow> (Inr [(''url'', url)], log'))))"

subsection \<open>__call__\<close>

text \<open>
  The body of the \<open>try\<close> block: upload the input, claim the payload, start the
  execution, record it. The first call that raises ends it.
\<close>

definition try_body ::
  "services \<Rightarrow> event list \<Rightarrow> ProcessPayload \<Rightarrow> json \<Rightarrow> string \<Rightarrow> string
     \<Rightarrow> (exn + json) \<times> event list" where
  "try_body sv log self idv url arn =
     (case upload_json sv log (items self) url of
        Some e \<Rightarrow> (Inl e, log)
      | None \<Rightarrow>
     (let log1 = log @ [S3Upload (items self) url] in
      case claim_processing sv log1 idv url arn of
        Inl e \<Rightarrow> (Inl e, log1)
      | Inr execution_name \<Rightarrow>
     (let log2 = log1 @ [ClaimProcessing idv url arn] in
      case get_payload sv log2 self of
        (Inl e, log3) \<Rightarrow> (Inl e, log3)
      | (Inr payload, log3) \<Rightarrow>
     (let input = json_dumps sv payload in
      case start_execution sv log3 arn execution_name input of
        Some e \<Rightarrow> (Inl e, log3)
      | None \<Rightarrow>
     (let log4 = log3 @ [StartExecution arn execution_name input] in
      case started_processing sv log4 idv (arn @ '':'' @ execution_name) url of
        Some e \<Rightarrow> (Inl e, log4)
      | None \<Rightarrow>
          (Inr idv, log4 @ [StartedProcessing idv (arn @ '':'' @ execution_name) url]))))))"

text \<open>
  The two \<open>except\<close> clauses. A \<open>ClientError\<close> is handled by the first clause only: the
  bare \<open>raise\<close> at its end leaves the \<open>try\<close> statement, the second clause does not see
  it. A returned \<open>JNull\<close> is Python's \<open>None\<close>.
\<close>

definition except_clauses ::
  "services \<Rightarrow> ProcessPayload \<Rightarrow> json \<Rightarrow> string \<Rightarrow> exn \<Rightarrow> event list
     \<Rightarrow> (exn + json) \<times> event list" where
  "except_clauses sv self idv url e log =
     (case e of
        ClientError code \<Rightarrow>
          if code = ''ConditionalCheckFailedException'' then
            (Inr JNull, log @ [Skipping idv (Some PROCESSING) url])
          else if code = ''StateMachineDoesNotExist'' then
            (Inl TerminalError, log @ [Failed idv (exc_str sv e) url])
          else (Inl e, log)
      | _ \<Rightarrow>
          (Inl e,
           log @ [Failed (case map_of (items self) ''id'' of Some v \<Rightarrow> v | None \<Rightarrow> JStr ''missing'')
                         (''failed starting workflow ('' @ exc_str sv e @ '')'') url]))"

definition call :: "services \<Rightarrow> event list \<Rightarrow> ProcessPayload \<Rightarrow> (exn + json) \<times> event list" where
  "call sv log self =
     (case CIRRUS_PAYLOAD_BUCKET sv of
        None \<Rightarrow> (Inl (ValueError ''env var CIRRUS_PAYLOAD_BUCKET must be defined''), log)
      | Some payload_bucket \<Rightarrow>
          if payload_bucket = [] then
            (Inl (ValueError ''env var CIRRUS_PAYLOAD_BUCKET must be defined''), log)
          else
            (case py_getitem (process self) ''workflow'' of
               Inl e \<Rightarrow> (Inl e, log)
             | Inr workflow \<Rightarrow>
            (case (CIRRUS_BASE_WORKFLOW_ARN sv, workflow) of
               (Some base, JStr w) \<Rightarrow>
                 (let arn = base @ w in
                  case py_getitem (JObj (items self)) ''id'' of
                    Inl e \<Rightarrow> (Inl e, log)
                  | Inr idv \<Rightarrow>
                      (let url = ''s3://'' @ payload_bucket @ ''/''
                                 @ format_value (py_str sv) idv @ ''/input.json'' in
                       case try_body sv log self idv url arn of
                         (Inr r, log') \<Rightarrow> (Inr r, log')
                       | (Inl e, log') \<Rightarrow> except_clauses sv self idv url e log'))
             | _ \<Rightarrow> (Inl (TypeError []), log))))"

section \<open>ProcessPayloads\<close>

text \<open>
  Python compares the payload ids with \<open>==\<close> (in \<open>id in list\<close>) and hashes them (in
  \<open>states.get(id)\<close>). A hashable JSON value is represented by its key: \<open>True\<close> and \<open>1\<close>
  are the same key, as are \<open>False\<close> and \<open>0\<close>. Lists and dicts have none: hashing them
  raises \<open>TypeError\<close>.
\<close>

datatype py_key = KNone | KNum int | KStr string

definition py_hash_key :: "json \<Rightarrow> py_key option" where
  "py_hash_key v =
     (case v of
        JNull \<Rightarrow> Some KNone
      | JBool b \<Rightarrow> Some (KNum (if b then 1 else 0))
      | JNum n \<Rightarrow> Some (KNum n)
      | JStr s \<Rightarrow> Some (KStr s)
      | _ \<Rightarrow> None)"

text \<open>\<open>v in xs\<close> for a hashable \<open>v\<close> and a list of hashable values.\<close>

definition py_list_contains :: "json list \<Rightarrow> py_key \<Rightarrow> bool" where
  "py_list_contains xs k = (Some k \<in> py_hash_key ` set xs)"

text \<open>The dict of four lists that \<open>process\<close> returns.\<close>

record payload_ids =
  started :: "json list"
  skipped :: "json list"
  dropped :: "json list"
  failed :: "json list"

text \<open>\<open>replace or payload.process.get("replace", False)\<close>, as a truth value.\<close>

definition replace_flag :: "bool \<Rightarrow> ProcessPayload \<Rightarrow> exn + bool" where
  "replace_flag replace payload =
     (if replace then Inr True
      else (case process payload of
              JObj kvs \<Rightarrow>
                Inr (py_truthy (case map_of kvs ''replace'' of Some v \<Rightarrow> v | None \<Rightarrow> JBool False))
            | _ \<Rightarrow> Inl AttributeError))"

text \<open>
  The body of the loop of \<open>ProcessPayloads.process\<close> for one payload. \<open>states\<close> is the
  dict that \<open>get_states()\<close> returned, read through the keys of the ids.
\<close>

definition process_one ::
  "services \<Rightarrow> bool \<Rightarrow> (py_key \<Rightarrow> StateEnum option) \<Rightarrow> ProcessPayload \<Rightarrow> payload_ids
     \<Rightarrow> event list \<Rightarrow> (exn + payload_ids) \<times> event list" where
  "process_one sv replace states payload acc log =
     (case replace_flag replace payload of
        Inl e \<Rightarrow> (Inl e, log)
      | Inr replace' \<Rightarrow>
     (case py_getitem (JObj (items payload)) ''id'' of
        Inl e \<Rightarrow> (Inl e, log)
      | Inr pid \<Rightarrow>
     (case py_hash_key pid of
        None \<Rightarrow> (Inl (TypeError []), log)
      | Some k \<Rightarrow>
     (let state = states k in
      if py_list_contains (started acc) k \<or> py_list_contains (skipped acc) k
         \<or> py_list_contains (failed acc) k
      then
        (Inr (acc\<lparr>dropped := dropped acc @ [pid]\<rparr>),
         log @ [Duplicated pid (payload_id_to_url sv pid)])
      else if state = Some FAILED \<or> state = Some ABORTED \<or> state = None \<or> replace' then
        (case call sv log payload of
           (Inl TerminalError, log') \<Rightarrow> (Inr (acc\<lparr>failed := failed acc @ [pid]\<rparr>), log')
         | (Inl e, log') \<Rightarrow> (Inl e, log')
         | (Inr payload_id, log') \<Rightarrow>
             if payload_id \<noteq> JNull then (Inr (acc\<lparr>started := started acc @ [payload_id]\<rparr>), log')
             else (Inr (acc\<lparr>skipped := skipped acc @ [pid]\<rparr>), log'))
      else
        (Inr (acc\<lparr>skipped := skipped acc @ [pid]\<rparr>),
         log @ [Skipping pid state (payload_id_to_url sv pid)])))))"

fun process_loop ::
  "services \<Rightarrow> bool \<Rightarrow> (py_key \<Rightarrow> StateEnum option) \<Rightarrow> ProcessPayload list \<Rightarrow> payload_ids
     \<Rightarrow> event list \<Rightarrow> (exn + payload_ids) \<times> event list" where
  "process_loop sv replace states [] acc log = (Inr acc, log)"
| "process_loop sv replace states (payload # rest) acc log =
     (case process_one sv replace states payload acc log of
        (Inl e, log') \<Rightarrow> (Inl e, log')
      | (Inr acc', log') \<Rightarrow> process_loop sv replace states rest acc' log')"



section \<open>Topic Publisher\<close>

text \<open>
  Modelled from the spec: the Batch Accumulator, its size-bounded variant and the Topic
  Publisher (\<open>cirrus.lib.utils\<close>: \<open>BatchHandler\<close>, \<open>SNSPublisher\<close>) are not among the
  sources, only their tests are. An item is a body and optional attributes; the
  accumulator holds the buffer, the threshold, and \<open>sent\<close>, the batches the sink has
  received, one per send call.
\<close>

type_synonym item = "string \<times> dict option"

record publisher =
  buffer :: "item list"
  batch_size :: nat
  sent :: "item list list"

text \<open>
  Modelled from the spec: Execute passes the buffered items to the sink in one call and
  clears the buffer; with an empty buffer the sink is not invoked.
\<close>

definition Execute :: "publisher \<Rightarrow> publisher" where
  "Execute p = (if buffer p = [] then p else p\<lparr>sent := sent p @ [buffer p], buffer := []\<rparr>)"

text \<open>
  Modelled from the spec: Add of the size-bounded accumulator appends the item and, once
  the buffer reaches the threshold, invokes Execute before returning.
\<close>

definition Add_bounded :: "publisher \<Rightarrow> item \<Rightarrow> publisher" where
  "Add_bounded p it =
     (let p' = p\<lparr>buffer := buffer p @ [it]\<rparr>
      in if batch_size p' \<le> length (buffer p') then Execute p' else p')"

text \<open>
  Modelled from the spec: Add of the Topic Publisher fails with a validation error,
  before buffering, when the item carries more than 10 attributes.
\<close>

definition Add :: "publisher \<Rightarrow> item \<Rightarrow> exn + publisher" where
  "Add p it =
     (case snd it of
        Some attrs \<Rightarrow>
          if 10 < length attrs then
            Inl (ValueError ''a message may carry at most 10 attributes'')
          else Inr (Add_bounded p it)
      | None \<Rightarrow> Inr (Add_bounded p it))"

text \<open>Modelled from the spec: a sequence of Add calls, ended by the first that fails.\<close>

fun Add_all :: "publisher \<Rightarrow> item list \<Rightarrow> exn + publisher" where
  "Add_all p [] = Inr p"
| "Add_all p (it # its) = (case Add p it of Inl e \<Rightarrow> Inl e | Inr p' \<Rightarrow> Add_all p' its)"

text \<open>Modelled from the spec: leaving the scope flushes what is still buffered.\<close>

definition close :: "publisher \<Rightarrow> publisher" where
  "close p = Execute p"

section \<open>Example values\<close>

text \<open>A payload with a single step and one feature, as \<open>__init__\<close> leaves it.\<close>

definition example_step :: json where
  "example_step =
     JObj [(''upload_options'', JObj []), (''workflow'', JStr ''wf''), (''tasks'', JObj [])]"

definition example_feature :: json where
  "example_feature =
     JObj [(''id'', JStr ''a''), (''collection'', JStr ''col''), (''links'', JArr [])]"

definition example_items :: dict where
  "example_items =
     [(''id'', JStr ''col/workflow-wf/a''),
      (''process'', JArr [example_step]),
      (''features'', JArr [example_feature])]"

definition example_payload :: ProcessPayload where
  "example_payload =
     \<lparr>items = example_items, process = example_step, features = JArr [example_feature],
      tasks = JObj [], state_item = JNull\<rparr>"

text \<open>Services that answer every call; single fields are changed where a call is to fail.\<close>

definition example_services :: services where
  "example_services =
     \<lparr>CIRRUS_PAYLOAD_BUCKET = Some ''bucket'',
      CIRRUS_BASE_WORKFLOW_ARN = Some ''arn:'',
      upload_json = (\<lambda>log payload url. None),
      claim_processing = (\<lambda>log idv url arn. Inr ''exec''),
      start_execution = (\<lambda>log arn name input. None),
      started_processing = (\<lambda>log idv execution url. None),
      uuid1 = (\<lambda>log. ''uuid''),
      json_dumps = (\<lambda>d. ''{}''),
      py_str = (\<lambda>v. ''?''),
      exc_str = (\<lambda>e. ''error''),
      payload_id_to_url = (\<lambda>v. ''s3://bucket/'' @ format_value (\<lambda>v. ''?'') v @ ''/input.json'')\<rparr>"

text \<open>Where \<open>__call__\<close> stores the input of the example payload.\<close>

definition example_url :: string where
  "example_url = ''s3://bucket/col/workflow-wf/a/input.json''"

text \<open>An encoder whose output is one byte over the limit, and a payload with a \<open>url\<close> key.\<close>

definition oversized_services :: services where
  "oversized_services = example_services\<lparr>json_dumps := (\<lambda>d. replicate 250001 CHR ''x'')\<rparr>"

definition pointer_items :: dict where
  "pointer_items = example_items @ [(''url'', JStr ''s3://elsewhere/payload.json'')]"

text \<open>The id of the example payload.\<close>

definition example_id :: json where
  "example_id = JStr ''col/workflow-wf/a''"

text \<open>An attributes mapping with \<open>n\<close> entries, and an empty publisher with threshold 3.\<close>

definition example_attrs :: "nat \<Rightarrow> dict" where
  "example_attrs n =
     map (\<lambda>i. (''status'' @ show_nat i,
                JObj [(''DataType'', JStr ''String''), (''StringValue'', JStr ''succeeded'')]))
       [0..<n]"

definition example_publisher :: publisher where
  "example_publisher = \<lparr>buffer = [], batch_size = 3, sent = []\<rparr>"

text \<open>
  A payload with a second entry in \<open>process\<close> that holds two successor steps, the
  second with a \<open>chain_filter\<close>.
\<close>

definition chain_step :: json where
  "chain_step =
     JObj [(''upload_options'', JObj []), (''workflow'', JStr ''next''), (''tasks'', JObj []),
           (''chain_filter'', JStr ''@.properties.gsd < 0'')]"

definition chain_payload :: ProcessPayload where
  "chain_payload =
     example_payload\<lparr>items :=
       [(''id'', JStr ''col/workflow-wf/a''),
        (''process'', JArr [example_step, JArr [example_step, chain_step]]),
        (''features'', JArr [example_feature])]\<rparr>"

text \<open>A payload without an id, with two features listed against their order.\<close>

definition feature_a :: json where
  "feature_a = JObj [(''id'', JStr ''a''), (''collection'', JStr ''c1'')]"

definition feature_b :: json where
  "feature_b = JObj [(''id'', JStr ''b''), (''collection'', JStr ''c2'')]"

definition unidentified_payload :: ProcessPayload where
  "unidentified_payload =
     \<lparr>items = [(''process'', JArr [example_step]), (''features'', JArr [feature_b, feature_a])],
      process = example_step, features = JArr [feature_b, feature_a],
      tasks = JNull, state_item = JNull\<rparr>"

definition derived_items :: "dict" where
  "derived_items =
     [(''process'', JArr [example_step]), (''features'', JArr [feature_b, feature_a]),
      (''id'', JStr ''c1/c2/workflow-wf/a/b'')]"

section \<open>Unfolding the examples\<close>

lemmas example_defs = example_services_def example_payload_def example_items_def
  example_step_def example_feature_def example_url_def example_id_def

lemmas launch_defs = call_def try_body_def get_payload_def except_clauses_def py_getitem_def
  format_value_def MAX_PAYLOAD_LENGTH_def Let_def

section \<open>Properties of next_payloads\<close>

text \<open>
  C3. For every payload whose \<open>process\<close> list has length 1, \<open>next_payloads\<close> yields
  nothing: the generator ends at once, without an exception.
\<close>

theorem next_payloads_single_step:
  assumes "map_of (items self) ''process'' = Some (JArr ps)" and "length ps = 1"
  shows "next_payloads jfind self = ([], None)"
  using assms by (simp add: next_payloads_def py_getitem_def py_len_def)

theorem next_payloads_single_step_witness:
  "map_of (items example_payload) ''process'' = Some (JArr [example_step])
   \<and> length [example_step] = 1
   \<and> next_payloads (\<lambda>cf new. Inr []) example_payload = ([], None)"
  using next_payloads_single_step [of example_payload "[example_step]" "\<lambda>cf new. Inr []"]
  by (simp add: example_payload_def example_items_def)

section \<open>Properties of __call__\<close>

text \<open>With the environment set and an \<open>id\<close> in the payload, a launch is the \<open>try\<close> block and its handlers.\<close>

lemma call_configured:
  assumes "CIRRUS_PAYLOAD_BUCKET sv = Some b" and "b \<noteq> []"
    and "CIRRUS_BASE_WORKFLOW_ARN sv = Some base"
    and "py_getitem (process self) ''workflow'' = Inr (JStr w)"
    and "map_of (items self) ''id'' = Some idv"
  shows "call sv log self =
     (let url = ''s3://'' @ b @ ''/'' @ format_value (py_str sv) idv @ ''/input.json'' in
      case try_body sv log self idv url (base @ w) of
        (Inr r, log') \<Rightarrow> (Inr r, log')
      | (Inl e, log') \<Rightarrow> except_clauses sv self idv url e log')"
  using assms by (simp add: call_def py_getitem_def Let_def)

text \<open>
  C6. When \<open>claim_processing\<close> raises the \<open>ClientError\<close> with code
  \<open>ConditionalCheckFailedException\<close>, the launch records a skipping event, returns \<open>None\<close>
  and raises nothing; the log shows the upload of the input and the skipping event, and
  no started execution.
\<close>

theorem call_conditional_check_failed:
  assumes "CIRRUS_PAYLOAD_BUCKET sv = Some b" and "b \<noteq> []"
    and "CIRRUS_BASE_WORKFLOW_ARN sv = Some base"
    and "py_getitem (process self) ''workflow'' = Inr (JStr w)"
    and "map_of (items self) ''id'' = Some idv"
    and "url = ''s3://'' @ b @ ''/'' @ format_value (py_str sv) idv @ ''/input.json''"
    and "upload_json sv log (items self) url = None"
    and "claim_processing sv (log @ [S3Upload (items self) url]) idv url (base @ w)
           = Inl (ClientError ''ConditionalCheckFailedException'')"
  shows "call sv log self
           = (Inr JNull, log @ [S3Upload (items self) url, Skipping idv (Some PROCESSING) url])"
  using assms(6-8)
  by (simp add: call_configured [OF assms(1-5)] try_body_def except_clauses_def Let_def)

theorem call_conditional_check_failed_witness:
  "call (example_services\<lparr>claim_processing :=
            (\<lambda>log idv url arn. Inl (ClientError ''ConditionalCheckFailedException''))\<rparr>)
        [] example_payload
     = (Inr JNull, [S3Upload example_items example_url,
                    Skipping (JStr ''col/workflow-wf/a'') (Some PROCESSING) example_url])"
  using call_conditional_check_failed
    [of "example_services\<lparr>claim_processing :=
            (\<lambda>log idv url arn. Inl (ClientError ''ConditionalCheckFailedException''))\<rparr>"
        "''bucket''" "''arn:''" example_payload "''wf''" "JStr ''col/workflow-wf/a''" example_url "[]"]
  by (simp add: example_services_def example_payload_def example_items_def example_step_def
      example_url_def py_getitem_def format_value_def)

text \<open>
  C1, as the code has it. With the payload bucket and the base ARN set, when a call
  inside the \<open>try\<close> block raises an exception \<open>e\<close> that is not a \<open>ClientError\<close>, or is the
  \<open>ClientError\<close> with code \<open>StateMachineDoesNotExist\<close>: the failure is recorded by
  \<open>wfem.failed\<close> as the last event before the exception leaves the call; for
  \<open>StateMachineDoesNotExist\<close> the call raises \<open>TerminalError\<close>, otherwise it raises \<open>e\<close>
  again.
\<close>

theorem call_failure_recorded:
  assumes "CIRRUS_PAYLOAD_BUCKET sv = Some b" and "b \<noteq> []"
    and "CIRRUS_BASE_WORKFLOW_ARN sv = Some base"
    and "py_getitem (process self) ''workflow'' = Inr (JStr w)"
    and "map_of (items self) ''id'' = Some idv"
    and "url = ''s3://'' @ b @ ''/'' @ format_value (py_str sv) idv @ ''/input.json''"
    and "try_body sv log self idv url (base @ w) = (Inl e, log')"
    and "\<forall>code. e = ClientError code \<longrightarrow> code = ''StateMachineDoesNotExist''"
  shows "call sv log self =
           (if e = ClientError ''StateMachineDoesNotExist''
            then (Inl TerminalError, log' @ [Failed idv (exc_str sv e) url])
            else (Inl e, log' @ [Failed idv (''failed starting workflow ('' @ exc_str sv e @ '')'') url]))"
  using assms(5-8)
  by (cases e) (simp_all add: call_configured [OF assms(1-5)] except_clauses_def Let_def)

theorem call_failure_recorded_witness:
  "call (example_services\<lparr>start_execution :=
            (\<lambda>log arn name input. Some (ClientError ''StateMachineDoesNotExist''))\<rparr>)
        [] example_payload
     = (Inl TerminalError,
        [S3Upload example_items example_url,
         ClaimProcessing (JStr ''col/workflow-wf/a'') example_url ''arn:wf'',
         Failed (JStr ''col/workflow-wf/a'') ''error'' example_url])
   \<and> call (example_services\<lparr>upload_json := (\<lambda>log payload url. Some (OtherError ''timeout''))\<rparr>)
        [] example_payload
     = (Inl (OtherError ''timeout''),
        [Failed (JStr ''col/workflow-wf/a'') ''failed starting workflow (error)'' example_url])"
  using call_failure_recorded
    [of "example_services\<lparr>start_execution :=
            (\<lambda>log arn name input. Some (ClientError ''StateMachineDoesNotExist''))\<rparr>"
        "''bucket''" "''arn:''" example_payload "''wf''" "JStr ''col/workflow-wf/a''" example_url "[]"
        "ClientError ''StateMachineDoesNotExist''"
        "[S3Upload example_items example_url,
          ClaimProcessing (JStr ''col/workflow-wf/a'') example_url ''arn:wf'']"]
    call_failure_recorded
    [of "example_services\<lparr>upload_json := (\<lambda>log payload url. Some (OtherError ''timeout''))\<rparr>"
        "''bucket''" "''arn:''" example_payload "''wf''" "JStr ''col/workflow-wf/a''" example_url "[]"
        "OtherError ''timeout''" "[]"]
  by (simp add: try_body_def get_payload_def example_services_def
      example_payload_def example_items_def example_step_def example_url_def py_getitem_def
      format_value_def MAX_PAYLOAD_LENGTH_def Let_def)

text \<open>
  C1 as stated fails, at two launches that fail without a record. Without
  \<open>CIRRUS_PAYLOAD_BUCKET\<close> the launch raises \<open>ValueError\<close> before the \<open>try\<close> block. A
  \<open>ClientError\<close> whose code is neither \<open>ConditionalCheckFailedException\<close> nor
  \<open>StateMachineDoesNotExist\<close> leaves the first \<open>except\<close> clause through its bare \<open>raise\<close>:
  it reaches the caller, and \<open>wfem.failed\<close> is not called.
\<close>

theorem call_failure_not_recorded:
  "call (example_services\<lparr>CIRRUS_PAYLOAD_BUCKET := None\<rparr>) [] example_payload
     = (Inl (ValueError ''env var CIRRUS_PAYLOAD_BUCKET must be defined''), [])
   \<and> call (example_services\<lparr>start_execution :=
            (\<lambda>log arn name input. Some (ClientError ''ThrottlingException''))\<rparr>)
        [] example_payload
     = (Inl (ClientError ''ThrottlingException''),
        [S3Upload example_items example_url,
         ClaimProcessing (JStr ''col/workflow-wf/a'') example_url ''arn:wf''])"
  by (simp add: call_def try_body_def get_payload_def except_clauses_def example_services_def
      example_payload_def example_items_def example_step_def example_url_def py_getitem_def
      format_value_def MAX_PAYLOAD_LENGTH_def Let_def)

section \<open>Properties of get_payload\<close>

text \<open>
  C4 as stated fails: an oversized payload that already has a \<open>url\<close> key is not uploaded;
  \<open>upload_to_s3\<close> returns the value of that key.
\<close>

theorem get_payload_keeps_existing_url:
  "get_payload oversized_services [] (example_payload\<lparr>items := pointer_items\<rparr>)
     = (Inr [(''url'', JStr ''s3://elsewhere/payload.json'')], [])"
  by (simp add: get_payload_def upload_to_s3_def oversized_services_def example_services_def
      pointer_items_def example_items_def MAX_PAYLOAD_LENGTH_def py_getitem_def Let_def)

lemma get_payload_inline:
  "length (json_dumps sv (items self)) \<le> 250000 \<Longrightarrow> get_payload sv log self = (Inr (items self), log)"
  by (simp add: get_payload_def MAX_PAYLOAD_LENGTH_def)

lemma get_payload_no_bucket:
  "250000 < length (json_dumps sv (items self)) \<Longrightarrow>
   CIRRUS_PAYLOAD_BUCKET sv = None \<or> CIRRUS_PAYLOAD_BUCKET sv = Some [] \<Longrightarrow>
   get_payload sv log self =
     (Inl (RuntimeError
        (''No payload bucket defined and payload too large: length ''
         @ show_nat (length (json_dumps sv (items self))) @ '' (max '' @ show_nat 250000 @ ''). ''
         @ ''To enable uploads oversized payloads define `CIRRUS_PAYLOAD_BUCKET`.'')), log)"
  by (auto simp add: get_payload_def MAX_PAYLOAD_LENGTH_def Let_def)

lemma get_payload_upload:
  "250000 < length (json_dumps sv (items self)) \<Longrightarrow>
   CIRRUS_PAYLOAD_BUCKET sv = Some b \<Longrightarrow> b \<noteq> [] \<Longrightarrow>
   ''url'' \<notin> fst ` set (items self) \<Longrightarrow>
   upload_json sv log (items self) (''s3://'' @ b @ ''/payloads/'' @ uuid1 sv log @ ''.json'') = None \<Longrightarrow>
   get_payload sv log self =
     (Inr [(''url'', JStr (''s3://'' @ b @ ''/payloads/'' @ uuid1 sv log @ ''.json''))],
      log @ [S3Upload (items self) (''s3://'' @ b @ ''/payloads/'' @ uuid1 sv log @ ''.json'')])"
  by (simp add: get_payload_def upload_to_s3_def MAX_PAYLOAD_LENGTH_def Let_def)

lemma get_payload_existing_url:
  "250000 < length (json_dumps sv (items self)) \<Longrightarrow>
   CIRRUS_PAYLOAD_BUCKET sv = Some b \<Longrightarrow> b \<noteq> [] \<Longrightarrow>
   map_of (items self) ''url'' = Some u \<Longrightarrow>
   get_payload sv log self = (Inr [(''url'', u)], log)"
  by (auto simp add: get_payload_def upload_to_s3_def MAX_PAYLOAD_LENGTH_def py_getitem_def Let_def
      dest: map_of_SomeD intro: rev_image_eqI)

text \<open>
  C4, as the code has it. With \<open>n\<close> the encoded length of the payload: when \<open>n\<close> is at
  most 250000, \<open>get_payload\<close> returns the payload itself; when \<open>n\<close> exceeds 250000 and
  no bucket is set (unset or empty), it raises \<open>RuntimeError\<close> with a message that names
  \<open>n\<close> and 250000; when \<open>n\<close> exceeds 250000, a bucket is set, the payload has no \<open>url\<close>
  key and the upload returns, the payload is uploaded to
  \<open>s3://{bucket}/payloads/{uuid}.json\<close> and the result is the pointer with that url
  only; when the payload has a \<open>url\<close> key, nothing is uploaded and the pointer carries
  the value of that key.
\<close>

theorem get_payload_cases:
  fixes sv log self
  defines "n \<equiv> length (json_dumps sv (items self))"
  shows "(n \<le> 250000 \<longrightarrow> get_payload sv log self = (Inr (items self), log))
    \<and> (250000 < n \<and> (CIRRUS_PAYLOAD_BUCKET sv = None \<or> CIRRUS_PAYLOAD_BUCKET sv = Some []) \<longrightarrow>
         get_payload sv log self =
           (Inl (RuntimeError
              (''No payload bucket defined and payload too large: length ''
               @ show_nat n @ '' (max '' @ show_nat 250000 @ ''). ''
               @ ''To enable uploads oversized payloads define `CIRRUS_PAYLOAD_BUCKET`.'')), log))
    \<and> (250000 < n \<and> CIRRUS_PAYLOAD_BUCKET sv = Some b \<and> b \<noteq> []
         \<and> ''url'' \<notin> fst ` set (items self)
         \<and> upload_json sv log (items self) (''s3://'' @ b @ ''/payloads/'' @ uuid1 sv log @ ''.json'') = None \<longrightarrow>
         get_payload sv log self =
           (Inr [(''url'', JStr (''s3://'' @ b @ ''/payloads/'' @ uuid1 sv log @ ''.json''))],
            log @ [S3Upload (items self) (''s3://'' @ b @ ''/payloads/'' @ uuid1 sv log @ ''.json'')]))
    \<and> (250000 < n \<and> CIRRUS_PAYLOAD_BUCKET sv = Some b \<and> b \<noteq> []
         \<and> map_of (items self) ''url'' = Some u \<longrightarrow>
         get_payload sv log self = (Inr [(''url'', u)], log))"
  unfolding n_def
  using get_payload_inline [of sv self log] get_payload_no_bucket [of sv self log]
    get_payload_upload [of sv self b log] get_payload_existing_url [of sv self b u log]
  by blast

theorem get_payload_cases_witness:
  "get_payload example_services [] example_payload = (Inr example_items, [])
   \<and> get_payload (oversized_services\<lparr>CIRRUS_PAYLOAD_BUCKET := None\<rparr>) [] example_payload
     = (Inl (RuntimeError
          (''No payload bucket defined and payload too large: length 250001 (max 250000). ''
           @ ''To enable uploads oversized payloads define `CIRRUS_PAYLOAD_BUCKET`.'')), [])
   \<and> get_payload oversized_services [] example_payload
     = (Inr [(''url'', JStr ''s3://bucket/payloads/uuid.json'')],
        [S3Upload example_items ''s3://bucket/payloads/uuid.json''])
   \<and> get_payload oversized_services [] (example_payload\<lparr>items := pointer_items\<rparr>)
     = (Inr [(''url'', JStr ''s3://elsewhere/payload.json'')], [])"
  using get_payload_cases [of example_services example_payload "[]"]
    get_payload_cases [of "oversized_services\<lparr>CIRRUS_PAYLOAD_BUCKET := None\<rparr>" example_payload "[]"]
    get_payload_cases [of oversized_services example_payload "[]" "''bucket''"]
    get_payload_cases [of oversized_services "example_payload\<lparr>items := pointer_items\<rparr>" "[]"
       "''bucket''" "JStr ''s3://elsewhere/payload.json''"]
  by (simp add: oversized_services_def pointer_items_def example_defs show_nat.simps)

section \<open>Properties of the Topic Publisher\<close>

lemma Execute_keeps: "set (concat (sent (Execute p))) \<union> set (buffer (Execute p)) = set (concat (sent p)) \<union> set (buffer p)"
  by (auto simp: Execute_def)

lemma Add_bounded_keeps:
  "set (concat (sent (Add_bounded p it))) \<union> set (buffer (Add_bounded p it))
     = insert it (set (concat (sent p)) \<union> set (buffer p))"
  by (auto simp: Add_bounded_def Execute_def Let_def)

lemma Add_keeps:
  "Add p it = Inr p' \<Longrightarrow>
   set (concat (sent p')) \<union> set (buffer p') = insert it (set (concat (sent p)) \<union> set (buffer p))"
  using Add_bounded_keeps [of p it] by (auto simp: Add_def split: option.splits if_splits)

lemma Add_all_keeps:
  "Add_all p its = Inr p' \<Longrightarrow>
   set (concat (sent p)) \<union> set (buffer p) \<subseteq> set (concat (sent p')) \<union> set (buffer p')"
proof (induction its arbitrary: p)
  case Nil
  then show ?case by simp
next
  case (Cons it its)
  from Cons.prems obtain q where q: "Add p it = Inr q" and r: "Add_all q its = Inr p'"
    by (auto split: sum.splits)
  from Add_keeps [OF q] Cons.IH [OF r] show ?case by blast
qed

lemma close_delivers: "set (concat (sent (close p))) = set (concat (sent p)) \<union> set (buffer p)"
  by (auto simp: close_def Execute_def)

text \<open>
  C8. Add of an item with more than 10 attributes fails with a validation error: no
  new state is produced, so the item is not buffered and the sink is not called. Add of
  an item with at most 10 attributes (or none) succeeds, and whatever is added after it,
  the item is among the batches the sink has received once the scope is closed.
\<close>

theorem Add_attribute_limit:
  "(10 < length attrs \<longrightarrow>
      (\<exists>msg. Add p (body, Some attrs) = Inl (ValueError msg)))
   \<and> ((case a of None \<Rightarrow> True | Some attrs' \<Rightarrow> length attrs' \<le> 10) \<longrightarrow>
      (\<exists>p'. Add p (body, a) = Inr p' \<and>
         (\<forall>its p''. Add_all p' its = Inr p'' \<longrightarrow> (body, a) \<in> set (concat (sent (close p''))))))"
proof (intro conjI impI)
  assume "10 < length attrs"
  then show "\<exists>msg. Add p (body, Some attrs) = Inl (ValueError msg)"
    by (simp add: Add_def)
next
  assume ok: "case a of None \<Rightarrow> True | Some attrs' \<Rightarrow> length attrs' \<le> 10"
  then have eq: "Add p (body, a) = Inr (Add_bounded p (body, a))"
    by (auto simp: Add_def split: option.splits)
  have "(body, a) \<in> set (concat (sent (close p'')))" if "Add_all (Add_bounded p (body, a)) its = Inr p''" for its p''
    using Add_all_keeps [OF that] Add_keeps [OF eq] close_delivers [of p''] by blast
  with eq show "\<exists>p'. Add p (body, a) = Inr p' \<and>
         (\<forall>its p''. Add_all p' its = Inr p'' \<longrightarrow> (body, a) \<in> set (concat (sent (close p''))))"
    by blast
qed

theorem Add_attribute_limit_witness:
  "10 < length (example_attrs 11)
   \<and> (\<exists>msg. Add example_publisher (''too many attrs'', Some (example_attrs 11)) = Inl (ValueError msg))
   \<and> length (example_attrs 1) \<le> 10
   \<and> (\<exists>p' p''. Add example_publisher (''0'', Some (example_attrs 1)) = Inr p'
         \<and> Add_all p' [(''1'', None)] = Inr p''
         \<and> (''0'', Some (example_attrs 1)) \<in> set (concat (sent (close p''))))"
proof -
  have big: "10 < length (example_attrs 11)" and small: "length (example_attrs 1) \<le> 10"
    by (simp_all add: example_attrs_def)
  from Add_attribute_limit [of "example_attrs 11" example_publisher "''too many attrs''" None] big
  have a: "\<exists>msg. Add example_publisher (''too many attrs'', Some (example_attrs 11)) = Inl (ValueError msg)"
    by simp
  from Add_attribute_limit [of "[]" example_publisher "''0''" "Some (example_attrs 1)"] small
  obtain p' where p': "Add example_publisher (''0'', Some (example_attrs 1)) = Inr p'"
    and later: "\<And>its p''. Add_all p' its = Inr p'' \<Longrightarrow>
                  (''0'', Some (example_attrs 1)) \<in> set (concat (sent (close p'')))"
    by auto
  from p' have "Add_all p' [(''1'', None)] = Inr (Add_bounded p' (''1'', None))"
    by (simp add: Add_def)
  with later p' big small a show ?thesis by blast
qed

section \<open>Properties of ProcessPayloads.process\<close>

lemma process_one_launch:
  assumes "replace_flag replace payload = Inr r"
    and "map_of (items payload) ''id'' = Some pid"
    and "py_hash_key pid = Some k"
    and "\<not> py_list_contains (started acc) k" and "\<not> py_list_contains (skipped acc) k"
    and "\<not> py_list_contains (failed acc) k"
    and "states k = Some FAILED \<or> states k = Some ABORTED \<or> states k = None \<or> r"
  shows "process_one sv replace states payload acc log =
     (case call sv log payload of
           (Inl TerminalError, log') \<Rightarrow> (Inr (acc\<lparr>failed := failed acc @ [pid]\<rparr>), log')
         | (Inl e, log') \<Rightarrow> (Inl e, log')
         | (Inr payload_id, log') \<Rightarrow>
             if payload_id \<noteq> JNull then (Inr (acc\<lparr>started := started acc @ [payload_id]\<rparr>), log')
             else (Inr (acc\<lparr>skipped := skipped acc @ [pid]\<rparr>), log'))"
  using assms by (simp add: process_one_def py_getitem_def Let_def)

text \<open>
  C10. When the launch of a payload raises, only \<open>TerminalError\<close> is caught: the id is
  appended to \<open>failed\<close> and the loop goes on. Any other exception ends the call at once:
  the payloads after it are not looked at and no result is returned.
\<close>

theorem process_only_terminal_caught:
  assumes "replace_flag replace payload = Inr r"
    and "map_of (items payload) ''id'' = Some pid"
    and "py_hash_key pid = Some k"
    and "\<not> py_list_contains (started acc) k" and "\<not> py_list_contains (skipped acc) k"
    and "\<not> py_list_contains (failed acc) k"
    and "states k = Some FAILED \<or> states k = Some ABORTED \<or> states k = None \<or> r"
    and "call sv log payload = (Inl e, log')"
  shows "process_loop sv replace states (payload # rest) acc log =
           (if e = TerminalError
            then process_loop sv replace states rest (acc\<lparr>failed := failed acc @ [pid]\<rparr>) log'
            else (Inl e, log'))"
  using assms(8) by (cases e) (simp_all add: process_one_launch [where states = states, OF assms(1-7)])

theorem process_only_terminal_caught_witness:
  "process_loop
       (example_services\<lparr>start_execution := (\<lambda>log arn name input. Some (OtherError ''boom''))\<rparr>)
       False (\<lambda>k. None) [example_payload, example_payload]
       \<lparr>started = [], skipped = [], dropped = [], failed = []\<rparr> []
     = (Inl (OtherError ''boom''),
        [S3Upload example_items example_url,
         ClaimProcessing example_id example_url ''arn:wf'',
         Failed example_id ''failed starting workflow (error)'' example_url])
   \<and> process_loop
       (example_services\<lparr>start_execution :=
          (\<lambda>log arn name input. Some (ClientError ''StateMachineDoesNotExist''))\<rparr>)
       False (\<lambda>k. None) [example_payload]
       \<lparr>started = [], skipped = [], dropped = [], failed = []\<rparr> []
     = (Inr \<lparr>started = [], skipped = [], dropped = [], failed = [example_id]\<rparr>,
        [S3Upload example_items example_url,
         ClaimProcessing example_id example_url ''arn:wf'',
         Failed example_id ''error'' example_url])"
  using process_only_terminal_caught
    [of False example_payload False example_id "KStr ''col/workflow-wf/a''"
        "\<lparr>started = [], skipped = [], dropped = [], failed = []\<rparr>" "\<lambda>k. None"
        "example_services\<lparr>start_execution := (\<lambda>log arn name input. Some (OtherError ''boom''))\<rparr>"
        "[]" "OtherError ''boom''"
        "[S3Upload example_items example_url,
         ClaimProcessing example_id example_url ''arn:wf'',
         Failed example_id ''failed starting workflow (error)'' example_url]" "[example_payload]"]
    process_only_terminal_caught
    [of False example_payload False example_id "KStr ''col/workflow-wf/a''"
        "\<lparr>started = [], skipped = [], dropped = [], failed = []\<rparr>" "\<lambda>k. None"
        "example_services\<lparr>start_execution :=
          (\<lambda>log arn name input. Some (ClientError ''StateMachineDoesNotExist''))\<rparr>"
        "[]" TerminalError
        "[S3Upload example_items example_url,
         ClaimProcessing example_id example_url ''arn:wf'',
         Failed example_id ''error'' example_url]" "[]"]
  by (simp add: replace_flag_def py_hash_key_def py_list_contains_def py_truthy_def
      example_defs launch_defs)













section \<open>Sequencing and lookup\<close>

lemma bind_eq_Inr: "bind m f = Inr y \<longleftrightarrow> (\<exists>x. m = Inr x \<and> f x = Inr y)"
  by (cases m) (simp_all add: bind_def)

lemma bind_Inl [simp]: "bind (Inl e) f = Inl e"
  by (simp add: bind_def)

lemma bind_Inr [simp]: "bind (Inr x) f = f x"
  by (simp add: bind_def)

lemma bind_assoc: "bind (bind m f) g = bind m (\<lambda>x. bind (f x) g)"
  by (cases m) simp_all


lemma map_of_Some_key: "map_of kvs k = Some v \<Longrightarrow> k \<in> fst ` set kvs"
  by (metis domI dom_map_of_conv_image_fst)

lemma map_of_delete_other: "k \<noteq> k' \<Longrightarrow> map_of (AList.delete k kvs) k' = map_of kvs k'"
  by (simp add: delete_conv')

section \<open>Properties of __init__\<close>





section \<open>Properties of next_payloads with a chain filter\<close>

lemma run_gen_nth:
  "i < length rs \<Longrightarrow> \<forall>j\<le>i. \<exists>x. rs ! j = Inr x \<Longrightarrow>
     i < length (fst (run_gen rs)) \<and> Inr (fst (run_gen rs) ! i) = rs ! i"
proof (induction rs arbitrary: i)
  case Nil
  then show ?case by simp
next
  case (Cons r rs)
  from Cons.prems(2) obtain x where r: "r = Inr x" by fastforce
  show ?case
  proof (cases i)
    case 0
    with r show ?thesis by (cases "run_gen rs") simp
  next
    case (Suc n)
    with Cons.prems have "n < length rs" and "\<forall>j\<le>n. \<exists>x. rs ! j = Inr x" by auto
    from Cons.IH [OF this] Suc r show ?thesis by (cases "run_gen rs") simp
  qed
qed

lemma next_payload_empty_filter:
  assumes "''id'' \<in> fst ` set (items self)"
    and "map_of (items self) ''process'' = Some (JArr ps)" and "1 < length ps"
    and "map_of kvs ''chain_filter'' = Some cf"
    and "jfind cf (AList.update ''process'' (JArr (JObj kvs # drop 2 ps))
                    (AList.delete ''id'' (items self))) = Inr []"
  shows "\<exists>new. next_payload jfind self (JObj kvs) = Inr new
           \<and> map_of (items new) ''features'' = Some (JArr [])"
  using assms
  by (auto simp: next_payload_def py_getitem_def py_in_def map_of_delete_other update_conv'
      Let_def dest: map_of_Some_key)

text \<open>
  C7. Let the payload have an id and at least two entries in \<open>process\<close>, and let the
  \<open>i\<close>-th successor step be a mapping with a \<open>chain_filter\<close> whose evaluation on the
  successor (which carries the parent's features) finds no match. When the generator
  gets as far as this step, it yields the successor, and the successor's \<open>features\<close> is
  the empty list.
\<close>

theorem next_payloads_empty_filter:
  assumes "''id'' \<in> fst ` set (items self)"
    and "map_of (items self) ''process'' = Some (JArr ps)" and "1 < length ps"
    and "next_processes (JArr ps) = Inr steps" and "i < length steps"
    and "\<forall>j<i. \<exists>new. next_payload jfind self (steps ! j) = Inr new"
    and "steps ! i = JObj kvs" and "map_of kvs ''chain_filter'' = Some cf"
    and "jfind cf (AList.update ''process'' (JArr (JObj kvs # drop 2 ps))
                    (AList.delete ''id'' (items self))) = Inr []"
  shows "i < length (fst (next_payloads jfind self))
     \<and> map_of (items (fst (next_payloads jfind self) ! i)) ''features'' = Some (JArr [])"
proof -
  from next_payload_empty_filter [where jfind = jfind, OF assms(1,2,3,8,9)] obtain new where
    new: "next_payload jfind self (JObj kvs) = Inr new"
    and feats: "map_of (items new) ''features'' = Some (JArr [])"
    by blast
  let ?rs = "map (next_payload jfind self) steps"
  have np: "next_payloads jfind self = run_gen ?rs"
    using assms(2-4) by (simp add: next_payloads_def py_getitem_def py_len_def)
  have "\<forall>j\<le>i. \<exists>x. ?rs ! j = Inr x"
  proof (intro allI impI)
    fix j assume "j \<le> i"
    then consider "j < i" | "j = i" by linarith
    then show "\<exists>x. ?rs ! j = Inr x"
    proof cases
      case 1
      with assms(5,6) show ?thesis by simp
    next
      case 2
      with assms(5,7) new show ?thesis by simp
    qed
  qed
  with run_gen_nth [of i ?rs] assms(5)
  have "i < length (fst (run_gen ?rs))" and "Inr (fst (run_gen ?rs) ! i) = ?rs ! i" by simp_all
  with np new feats assms(5,7) show ?thesis by simp
qed

theorem next_payloads_empty_filter_witness:
  "fst (next_payloads (\<lambda>cf new. Inr []) chain_payload) ! 1
     = chain_payload\<lparr>items :=
         [(''process'', JArr [chain_step]), (''features'', JArr [])]\<rparr>
   \<and> snd (next_payloads (\<lambda>cf new. Inr []) chain_payload) = None
   \<and> 1 < length (fst (next_payloads (\<lambda>cf new. Inr []) chain_payload))
   \<and> map_of (items (fst (next_payloads (\<lambda>cf new. Inr []) chain_payload) ! 1)) ''features''
       = Some (JArr [])"
  using next_payloads_empty_filter
    [where self = chain_payload and ps = "[example_step, JArr [example_step, chain_step]]"
       and steps = "[example_step, chain_step]" and i = 1 and jfind = "\<lambda>cf new. Inr []"
       and kvs = "[(''upload_options'', JObj []), (''workflow'', JStr ''next''), (''tasks'', JObj []),
           (''chain_filter'', JStr ''@.properties.gsd < 0'')]"
       and cf = "JStr ''@.properties.gsd < 0''"]
  by (simp add: next_payloads_def next_processes_def next_payload_def py_getitem_def py_len_def
      py_in_def py_iter_def chain_payload_def chain_step_def example_defs Let_def)

section \<open>Properties of set_id\<close>

lemma mapM_Inr_map:
  "mapM f xs = Inr ys \<Longrightarrow> ys = map (\<lambda>x. projr (f x)) xs \<and> (\<forall>x\<in>set xs. f x = Inr (projr (f x)))"
  by (induction xs arbitrary: ys) (auto split: sum.splits)

lemma mapM_all_Inr: "\<forall>x\<in>set xs. f x = Inr (g x) \<Longrightarrow> mapM f xs = Inr (map g xs)"
  by (induction xs) auto

lemma mapM_perm:
  assumes "mapM f xs = Inr ys" and "mset xs' = mset xs"
  shows "\<exists>ys'. mapM f xs' = Inr ys' \<and> mset ys' = mset ys"
proof -
  let ?g = "\<lambda>x. projr (f x)"
  from mapM_Inr_map [OF assms(1)] have ys: "ys = map ?g xs" and ok: "\<forall>x\<in>set xs. f x = Inr (?g x)"
    by simp_all
  from assms(2) have "set xs' = set xs" by (rule mset_eq_setD)
  with ok have "mapM f xs' = Inr (map ?g xs')" by (intro mapM_all_Inr) simp
  moreover from assms(2) ys have "mset (map ?g xs') = mset ys" by (metis mset_map)
  ultimately show ?thesis by blast
qed

lemma sort_remdups_set: "set xs = set ys \<Longrightarrow> sort (remdups xs) = sort (remdups ys)"
  by (metis sorted_list_of_set_sort_remdups)

lemma sort_mset: "mset xs = mset ys \<Longrightarrow> sort xs = sort ys"
  by (metis properties_for_sort mset_sort sorted_sort)

lemma collections_of_perm:
  assumes "collections_of xs = Inr s" and "mset xs' = mset xs"
  shows "collections_of xs' = Inr s"
proof -
  from assms(1) obtain cs where cs: "mapM feature_collection xs = Inr cs"
    and s: "s = (if sort (remdups (List.map_filter id cs)) \<noteq> []
                 then join ''/'' (sort (remdups (List.map_filter id cs))) else ''none'')"
    by (auto simp: collections_of_def bind_eq_Inr Let_def)
  from mapM_perm [OF cs assms(2)] obtain cs' where cs': "mapM feature_collection xs' = Inr cs'"
    and m: "mset cs' = mset cs" by blast
  from m have "set cs' = set cs" by (rule mset_eq_setD)
  then have "set (List.map_filter id cs') = set (List.map_filter id cs)"
    by (simp add: List.map_filter_def)
  then have "sort (remdups (List.map_filter id cs')) = sort (remdups (List.map_filter id cs))"
    by (rule sort_remdups_set)
  with cs' s show ?thesis by (simp add: collections_of_def Let_def)
qed

lemma strings_of_Some: "strings_of ys = Some ss \<longleftrightarrow> ys = map JStr ss"
proof (induction ys arbitrary: ss)
  case Nil
  then show ?case by auto
next
  case (Cons y ys)
  then show ?case by (cases y; cases ss) auto
qed

lemma strings_of_perm:
  assumes "strings_of ys = Some ss" and "mset ys' = mset ys"
  shows "\<exists>ss'. strings_of ys' = Some ss' \<and> mset ss' = mset ss"
proof -
  define unstr where "unstr = (\<lambda>v. case v of JStr s \<Rightarrow> s | _ \<Rightarrow> [])"
  from assms(1) have ys: "ys = map JStr ss" by (simp add: strings_of_Some)
  from assms(2) have "set ys' = set ys" by (rule mset_eq_setD)
  with ys have "\<forall>v\<in>set ys'. JStr (unstr v) = v" by (auto simp: unstr_def)
  then have "ys' = map JStr (map unstr ys')" by (simp add: map_idI)
  then have "strings_of ys' = Some (map unstr ys')" by (simp only: strings_of_Some)
  moreover have "mset (map unstr ys') = image_mset unstr (mset ys)"
    using assms(2) by (metis mset_map)
  then have "mset (map unstr ys') = mset ss"
    using ys by (simp add: unstr_def multiset.map_comp comp_def)
  ultimately show ?thesis by blast
qed

lemma items_str_of_perm:
  assumes "items_str_of xs = Inr s" and "mset xs' = mset xs"
  shows "items_str_of xs' = Inr s"
proof -
  from assms(1) obtain ids ss where ids: "mapM (\<lambda>i. py_getitem i ''id'') xs = Inr ids"
    and ss: "strings_of ids = Some ss" and s: "s = join ''/'' (sort ss)"
    by (auto simp: items_str_of_def bind_eq_Inr split: option.splits)
  from mapM_perm [OF ids assms(2)] obtain ids' where
    ids': "mapM (\<lambda>i. py_getitem i ''id'') xs' = Inr ids'" and m: "mset ids' = mset ids"
    by blast
  from strings_of_perm [OF ss m] obtain ss' where ss': "strings_of ids' = Some ss'"
    and "mset ss' = mset ss" by blast
  then have "sort ss' = sort ss" by (intro sort_mset)
  with ids' ss' s show ?thesis by (simp add: items_str_of_def)
qed

lemma set_id_derive:
  assumes "''id'' \<notin> fst ` set (items self)" and "py_truthy (features self)"
  shows "set_id fmt self =
           bind (derive_id fmt (process self) (features self))
             (\<lambda>s. Inr (self\<lparr>items := AList.update ''id'' (JStr s) (items self)\<rparr>))"
  unfolding set_id_def derive_id_def
  apply (simp only: assms if_False if_True not_True_eq_False not_False_eq_True)
  apply (simp only: bind_assoc bind_Inr)
  done

lemma set_id_has_id: "''id'' \<in> fst ` set (items self) \<Longrightarrow> set_id fmt self = Inr self"
  unfolding set_id_def by (simp only: if_True)

lemma set_id_no_features:
  assumes "''id'' \<notin> fst ` set (items self)" and "\<not> py_truthy (features self)"
  shows "\<exists>e. set_id fmt self = Inl e"
  unfolding set_id_def by (simp only: assms if_False if_True not_False_eq_True) blast

lemma set_id_Inr_cases:
  assumes "set_id fmt self = Inr self'"
  obtains "''id'' \<in> fst ` set (items self)" and "self' = self"
  | s where "''id'' \<notin> fst ` set (items self)" and "py_truthy (features self)"
      and "derive_id fmt (process self) (features self) = Inr s"
      and "self' = self\<lparr>items := AList.update ''id'' (JStr s) (items self)\<rparr>"
proof (cases "''id'' \<in> fst ` set (items self)")
  case True
  from set_id_has_id [OF True, of fmt] assms have "self' = self" by simp
  with True that(1) show ?thesis by blast
next
  case False
  have t: "py_truthy (features self)"
  proof (rule ccontr)
    assume "\<not> py_truthy (features self)"
    from set_id_no_features [OF False this, of fmt] assms show False by auto
  qed
  from assms set_id_derive [OF False t, of fmt] obtain s where
    "derive_id fmt (process self) (features self) = Inr s"
    "self' = self\<lparr>items := AList.update ''id'' (JStr s) (items self)\<rparr>"
    by (auto simp: bind_eq_Inr)
  with False t that(2) show ?thesis by blast
qed

lemma derive_id_list:
  "derive_id fmt proc (JArr fs) =
        bind (py_in ''collections'' proc) (\<lambda>has.
        bind (if has then
                bind (py_getitem proc ''collections'') (\<lambda>c. Inr (format_value fmt c))
              else collections_of fs) (\<lambda>collections_str.
        bind (items_str_of fs) (\<lambda>items_str.
        bind (py_getitem proc ''workflow'') (\<lambda>workflow.
          Inr (collections_str @ ''/workflow-'' @ format_value fmt workflow @ ''/'' @ items_str)))))"
proof -
  have "py_iter (JArr fs) = Inr fs" by (simp add: py_iter_def)
  then show ?thesis unfolding derive_id_def by (simp only: bind_Inr)
qed

lemma derive_id_perm:
  assumes "derive_id fmt proc (JArr fs) = Inr s" and "mset fs' = mset fs"
  shows "derive_id fmt proc (JArr fs') = Inr s"
proof -
  from assms(1) obtain has cstr istr w where
    has: "py_in ''collections'' proc = Inr has"
    and cstr: "(if has then bind (py_getitem proc ''collections'') (\<lambda>c. Inr (format_value fmt c))
                else collections_of fs) = Inr cstr"
    and istr: "items_str_of fs = Inr istr"
    and w: "py_getitem proc ''workflow'' = Inr w"
    and s: "s = cstr @ ''/workflow-'' @ format_value fmt w @ ''/'' @ istr"
    unfolding derive_id_list bind_eq_Inr by blast
  have cstr': "(if has then bind (py_getitem proc ''collections'') (\<lambda>c. Inr (format_value fmt c))
                else collections_of fs') = Inr cstr"
  proof (cases has)
    case True
    with cstr show ?thesis by simp
  next
    case False
    with cstr have "collections_of fs = Inr cstr" by simp
    from collections_of_perm [OF this assms(2)] False show ?thesis by simp
  qed
  from istr assms(2) have istr': "items_str_of fs' = Inr istr" by (rule items_str_of_perm)
  show ?thesis
    unfolding derive_id_list bind_eq_Inr using has cstr' istr' w s by blast
qed

lemma set_id_perm:
  assumes "features self = JArr fs" and "mset fs' = mset fs" and "set_id fmt self = Inr self'"
  shows "set_id fmt (self\<lparr>features := JArr fs'\<rparr>) = Inr (self'\<lparr>features := JArr fs'\<rparr>)"
  using assms(3)
proof (cases rule: set_id_Inr_cases)
  case 1
  then have "''id'' \<in> fst ` set (items (self\<lparr>features := JArr fs'\<rparr>))" by simp
  from set_id_has_id [OF this] 1(2) show ?thesis by simp
next
  case (2 s)
  let ?self = "self\<lparr>features := JArr fs'\<rparr>"
  from 2(2) assms(1) have "fs \<noteq> []" by (simp add: py_truthy_def)
  with assms(2) have "fs' \<noteq> []" by auto
  then have t: "py_truthy (features ?self)" by (simp add: py_truthy_def)
  from 2(1) have n: "''id'' \<notin> fst ` set (items ?self)" by simp
  from 2(3) assms(1) have "derive_id fmt (process self) (JArr fs) = Inr s" by simp
  from derive_id_perm [OF this assms(2)]
  have d: "derive_id fmt (process ?self) (features ?self) = Inr s" by simp
  have "set_id fmt ?self = Inr (?self\<lparr>items := AList.update ''id'' (JStr s) (items ?self)\<rparr>)"
    unfolding set_id_derive [OF n t] d by (rule bind_Inr)
  also have "?self\<lparr>items := AList.update ''id'' (JStr s) (items ?self)\<rparr> = self'\<lparr>features := JArr fs'\<rparr>"
    unfolding 2(4) by simp
  finally show ?thesis .
qed

lemma set_id_same_inputs:
  assumes "features b = features a" and "process b = process a"
    and "''id'' \<notin> fst ` set (items a)" and "''id'' \<notin> fst ` set (items b)"
    and "set_id fmt a = Inr a'"
  shows "\<exists>b'. set_id fmt b = Inr b' \<and> map_of (items b') ''id'' = map_of (items a') ''id''"
  using assms(5)
proof (cases rule: set_id_Inr_cases)
  case 1
  with assms(3) show ?thesis by simp
next
  case (2 s)
  from 2(2) assms(1) have t: "py_truthy (features b)" by simp
  from 2(3) assms(1,2) have d: "derive_id fmt (process b) (features b) = Inr s" by simp
  have "set_id fmt b = Inr (b\<lparr>items := AList.update ''id'' (JStr s) (items b)\<rparr>)"
    unfolding set_id_derive [OF assms(4) t] d by (rule bind_Inr)
  moreover have "map_of (items (b\<lparr>items := AList.update ''id'' (JStr s) (items b)\<rparr>)) ''id''
      = map_of (items a') ''id''"
    unfolding 2(4) by (simp add: update_conv')
  ultimately show ?thesis by blast
qed

lemma set_id_idem:
  assumes "set_id fmt self = Inr self'"
  shows "set_id fmt self' = Inr self'"
  using assms
proof (cases rule: set_id_Inr_cases)
  case 1
  from set_id_has_id [OF 1(1), of fmt] 1(2) show ?thesis by simp
next
  case (2 s)
  have "''id'' \<in> fst ` set (items self')" unfolding 2(4) by (simp add: dom_update)
  then show ?thesis by (rule set_id_has_id)
qed

text \<open>
  C5. The id that \<open>set_id\<close> derives depends on the features and the active step only:
  two payloads without an id that agree on both get the same id. \<open>set_id\<close> on a payload
  that has an id changes nothing, so a second call is a no-op. Reordering the features
  changes nothing in the derived id.
\<close>

theorem set_id_pure_idempotent_order_insensitive:
  "(features b = features a \<and> process b = process a
      \<and> ''id'' \<notin> fst ` set (items a) \<and> ''id'' \<notin> fst ` set (items b)
      \<and> set_id fmt a = Inr a'
     \<longrightarrow> (\<exists>b'. set_id fmt b = Inr b' \<and> map_of (items b') ''id'' = map_of (items a') ''id''))
   \<and> (''id'' \<in> fst ` set (items self) \<longrightarrow> set_id fmt self = Inr self)
   \<and> (set_id fmt self = Inr self' \<longrightarrow> set_id fmt self' = Inr self')
   \<and> (features self = JArr fs \<and> mset fs' = mset fs \<and> set_id fmt self = Inr self'
     \<longrightarrow> set_id fmt (self\<lparr>features := JArr fs'\<rparr>) = Inr (self'\<lparr>features := JArr fs'\<rparr>))"
proof (intro conjI impI)
  assume "features b = features a \<and> process b = process a
      \<and> ''id'' \<notin> fst ` set (items a) \<and> ''id'' \<notin> fst ` set (items b)
      \<and> set_id fmt a = Inr a'"
  then show "\<exists>b'. set_id fmt b = Inr b' \<and> map_of (items b') ''id'' = map_of (items a') ''id''"
    using set_id_same_inputs [of b a fmt a'] by simp
next
  assume "''id'' \<in> fst ` set (items self)"
  then show "set_id fmt self = Inr self" by (rule set_id_has_id)
next
  assume "set_id fmt self = Inr self'"
  then show "set_id fmt self' = Inr self'" by (rule set_id_idem)
next
  assume "features self = JArr fs \<and> mset fs' = mset fs \<and> set_id fmt self = Inr self'"
  then show "set_id fmt (self\<lparr>features := JArr fs'\<rparr>) = Inr (self'\<lparr>features := JArr fs'\<rparr>)"
    using set_id_perm [of self fs fs' fmt self'] by simp
qed

lemma sort_examples:
  "sort [''b'', ''a''] = [''a'', ''b'']" "sort [''c2'', ''c1''] = [''c1'', ''c2'']"
  by code_simp+

lemma set_id_example:
  "set_id (\<lambda>v. ''?'') unidentified_payload = Inr (unidentified_payload\<lparr>items := derived_items\<rparr>)"
  by (simp add: set_id_def unidentified_payload_def derived_items_def feature_a_def feature_b_def
      example_step_def py_truthy_def py_in_def py_iter_def py_getitem_def collections_of_def
      items_str_of_def feature_collection_def format_value_def sort_examples Let_def)

theorem set_id_pure_idempotent_order_insensitive_witness:
  "set_id (\<lambda>v. ''?'') unidentified_payload = Inr (unidentified_payload\<lparr>items := derived_items\<rparr>)
   \<and> (\<exists>b'. set_id (\<lambda>v. ''?'') (unidentified_payload\<lparr>tasks := JObj []\<rparr>) = Inr b'
          \<and> map_of (items b') ''id'' = Some (JStr ''c1/c2/workflow-wf/a/b''))
   \<and> set_id (\<lambda>v. ''?'') example_payload = Inr example_payload
   \<and> set_id (\<lambda>v. ''?'') (unidentified_payload\<lparr>items := derived_items\<rparr>)
       = Inr (unidentified_payload\<lparr>items := derived_items\<rparr>)
   \<and> mset [feature_a, feature_b] = mset [feature_b, feature_a]
   \<and> set_id (\<lambda>v. ''?'') (unidentified_payload\<lparr>features := JArr [feature_a, feature_b]\<rparr>)
       = Inr (unidentified_payload\<lparr>items := derived_items, features := JArr [feature_a, feature_b]\<rparr>)"
  using set_id_pure_idempotent_order_insensitive
    [where a = unidentified_payload and b = "unidentified_payload\<lparr>tasks := JObj []\<rparr>"
       and fmt = "\<lambda>v. ''?''" and a' = "unidentified_payload\<lparr>items := derived_items\<rparr>"
       and self = example_payload and self' = example_payload]
    set_id_pure_idempotent_order_insensitive
    [where a = unidentified_payload and b = unidentified_payload
       and fmt = "\<lambda>v. ''?''" and a' = "unidentified_payload\<lparr>items := derived_items\<rparr>"
       and self = unidentified_payload and self' = "unidentified_payload\<lparr>items := derived_items\<rparr>"
       and fs = "[feature_b, feature_a]" and fs' = "[feature_a, feature_b]"]
    set_id_example
  by (simp add: unidentified_payload_def derived_items_def example_payload_def example_items_def)

end
